theory Spec2Isabelle
  imports Complex_Main
begin

section \<open>Gesture classification and text assembly of the two-way translator\<close>

text \<open>
  The development embeds the gesture engine of \<^verbatim>\<open>TwoWayTranslatorApp\<close>
  (file \<^verbatim>\<open>two_way_translator.py\<close>): the geometric rules and the commit logic of
  \<^verbatim>\<open>predict\<close>, the suggestion refresh at its end, and \<^verbatim>\<open>clear_text\<close>.
  The classifier, the landmark extractor and the dictionary are collaborators: the
  class index, the landmark list and the suggestion function are inputs of the model.
\<close>

subsection \<open>Values and state\<close>

text \<open>
  The local \<^verbatim>\<open>ch1\<close> of \<^verbatim>\<open>predict\<close> starts as the integer returned by
  \<^verbatim>\<open>argmax\<close> and is overwritten with a string by the rules; where no rule applies
  it stays an integer, and \<^verbatim>\<open>predict\<close> itself tests \<^verbatim>\<open>isinstance(ch1, str)\<close>.
  Both shapes are kept.
\<close>

datatype pyval = PStr string | PInt int

datatype error = TypeError | IndexError

text \<open>A landmark is read through its first two components only: \<^verbatim>\<open>p[0]\<close> and \<^verbatim>\<open>p[1]\<close>.\<close>

type_synonym point = "int \<times> int"

record app_state =
  model_loaded :: bool
  str :: string
  word :: string
  current_symbol :: string
  prev_char :: pyval
  count :: int
  ten_prev_char :: "pyval list"
  ccc :: int
  pts :: "point list"
  word1 :: string
  word2 :: string
  word3 :: string
  word4 :: string
  sentence_label :: string
  char_label :: string

text \<open>The recognition state set up by \<^verbatim>\<open>__init__\<close> (no model loaded, no landmarks yet).\<close>

definition init_state :: app_state where
  "init_state =
     \<lparr> model_loaded = False,
       str = '' '',
       word = '' '',
       current_symbol = '''',
       prev_char = PStr '''',
       count = - 1,
       ten_prev_char = replicate 10 (PStr '' ''),
       ccc = 0,
       pts = [],
       word1 = '' '',
       word2 = '' '',
       word3 = '' '',
       word4 = '' '',
       sentence_label = '''',
       char_label = '''' \<rparr>"

subsection \<open>Geometric rules\<close>

text \<open>
  \<^verbatim>\<open>distance\<close> is \<^verbatim>\<open>math.sqrt\<close> of a sum of two integer squares; it is modelled
  by the real square root.
\<close>

definition distance :: "point \<Rightarrow> point \<Rightarrow> real" where
  "distance x y = sqrt (real_of_int ((fst x - fst y) ^ 2 + (snd x - snd y) ^ 2))"

text \<open>
  The \<^verbatim>\<open>if/elif\<close> chain on the class index, in the order of the source
  (0, 2, 3, 4, 5, 6, 7, 1). An index that no branch tests leaves \<^verbatim>\<open>ch1\<close> an integer.
\<close>

definition prediction_rules :: "int \<Rightarrow> point list \<Rightarrow> pyval" where
  "prediction_rules ch1 p =
     (if ch1 = 0 then
        (let c = ''S'';
             c = (if fst (p ! 4) < fst (p ! 6) then ''A'' else c);
             c = (if snd (p ! 4) > snd (p ! 8) then ''E'' else c)
         in PStr c)
      else if ch1 = 2 then
        PStr (if distance (p ! 12) (p ! 4) > 42 then ''C'' else ''O'')
      else if ch1 = 3 then
        PStr (if distance (p ! 8) (p ! 12) > 72 then ''G'' else ''H'')
      else if ch1 = 4 then PStr ''L''
      else if ch1 = 5 then PStr ''P''
      else if ch1 = 6 then PStr ''X''
      else if ch1 = 7 then
        PStr (if distance (p ! 8) (p ! 4) > 42 then ''Y'' else ''J'')
      else if ch1 = 1 then
        (if snd (p ! 6) > snd (p ! 8) \<and> snd (p ! 10) > snd (p ! 12) then PStr ''B''
         else if snd (p ! 6) > snd (p ! 8) \<and> snd (p ! 10) < snd (p ! 12) then PStr ''D''
         else PStr ''F'')
      else PInt ch1)"

text \<open>The two conditions tested under the comment "Check for special gestures".\<close>

definition space_gesture :: "point list \<Rightarrow> bool" where
  "space_gesture p \<longleftrightarrow>
     snd (p ! 6) > snd (p ! 8) \<and> snd (p ! 10) < snd (p ! 12) \<and>
     snd (p ! 14) < snd (p ! 16) \<and> snd (p ! 18) > snd (p ! 20)"

definition next_gesture :: "point list \<Rightarrow> bool" where
  "next_gesture p \<longleftrightarrow>
     fst (p ! 4) < fst (p ! 5) \<and> snd (p ! 6) > snd (p ! 8) \<and>
     snd (p ! 10) > snd (p ! 12) \<and> snd (p ! 14) > snd (p ! 16)"

definition special_gestures :: "point list \<Rightarrow> pyval \<Rightarrow> pyval" where
  "special_gestures p ch1 =
     (let c = (if space_gesture p then PStr '' '' else ch1);
          c = (if next_gesture p then PStr ''next'' else c)
      in c)"

text \<open>The symbol of one frame: the class rule, then the two overrides.\<close>

definition resolve :: "int \<Rightarrow> point list \<Rightarrow> pyval" where
  "resolve ch1 p = special_gestures p (prediction_rules ch1 p)"

subsection \<open>Character addition\<close>

text \<open>
  A raise is a left value carrying the state as it stands at that point, since the
  caller \<^verbatim>\<open>video_loop\<close> catches the exception and goes on with the object as mutated
  so far. Reading or writing the history outside its length raises \<^verbatim>\<open>IndexError\<close>;
  \<^verbatim>\<open>self.str + v\<close> with an integer \<open>v\<close> raises \<^verbatim>\<open>TypeError\<close>.
\<close>

type_synonym outcome = "(error \<times> app_state) + app_state"

definition lookback :: "app_state \<Rightarrow> nat" where
  "lookback s = nat ((count s - 2) mod 10)"

definition commit :: "pyval \<Rightarrow> app_state \<Rightarrow> outcome" where
  "commit ch1 s =
     (if ch1 = PStr ''next'' \<and> prev_char s \<noteq> PStr ''next'' then
        (if lookback s < length (ten_prev_char s) then
           (let v = ten_prev_char s ! lookback s in
            if v \<noteq> PStr ''next'' then
              (if v = PStr ''Backspace'' then Inr (s\<lparr>str := butlast (str s)\<rparr>)
               else (case v of
                       PStr t \<Rightarrow> Inr (s\<lparr>str := str s @ t\<rparr>)
                     | PInt n \<Rightarrow> Inl (TypeError, s)))
            else Inr s)
         else Inl (IndexError, s))
      else Inr s)"

definition record_symbol :: "pyval \<Rightarrow> app_state \<Rightarrow> outcome" where
  "record_symbol ch1 s =
     (let s1 = s\<lparr>prev_char := ch1\<rparr>;
          s2 = s1\<lparr>current_symbol := (case ch1 of PStr t \<Rightarrow> t | PInt n \<Rightarrow> '''')\<rparr>;
          s3 = s2\<lparr>count := count s2 + 1\<rparr>;
          j = nat (count s3 mod 10)
      in if j < length (ten_prev_char s3)
         then Inr (s3\<lparr>ten_prev_char := (ten_prev_char s3)[j := ch1]\<rparr>)
         else Inl (IndexError, s3))"

definition handle_character_addition :: "pyval \<Rightarrow> app_state \<Rightarrow> outcome" where
  "handle_character_addition ch1 s =
     (case commit ch1 s of
        Inl e \<Rightarrow> Inl e
      | Inr s' \<Rightarrow> record_symbol ch1 s')"

text \<open>The state the next frame starts from, whether the step returned or raised.\<close>

definition state_after :: "outcome \<Rightarrow> app_state" where
  "state_after r = (case r of Inl (e, s) \<Rightarrow> s | Inr s \<Rightarrow> s)"

definition step :: "pyval \<Rightarrow> app_state \<Rightarrow> app_state" where
  "step ch1 s = state_after (handle_character_addition ch1 s)"

subsection \<open>Word suggestions\<close>

text \<open>
  Python's \<^verbatim>\<open>strip()\<close> removes leading and trailing whitespace; the model takes
  the ASCII whitespace characters (codes 9 to 13, 28 to 31 and 32). \<^verbatim>\<open>rfind\<close>
  gives the highest index of the character, or \<open>- 1\<close>.
\<close>

definition isspace :: "char \<Rightarrow> bool" where
  "isspace c \<longleftrightarrow>
     (let n = (of_char c :: nat) in (9 \<le> n \<and> n \<le> 13) \<or> (28 \<le> n \<and> n \<le> 31) \<or> n = 32)"

definition strip :: "string \<Rightarrow> string" where
  "strip t = rev (dropWhile isspace (rev (dropWhile isspace t)))"

definition rfind :: "char \<Rightarrow> string \<Rightarrow> int" where
  "rfind c t =
     (if c \<in> set t
      then int (length t) - 1 - int (length (takeWhile (\<lambda>x. x \<noteq> c) (rev t)))
      else - 1)"

text \<open>The word being spelled: \<^verbatim>\<open>self.str[self.str.rfind(" ") + 1:]\<close>.\<close>

definition active_word :: "string \<Rightarrow> string" where
  "active_word t = drop (nat (rfind (CHR '' '') t + 1)) t"

text \<open>One suggestion slot: \<^verbatim>\<open>suggestions[k] if len(suggestions) >= k + 1 else " "\<close>.\<close>

definition slot :: "string list \<Rightarrow> nat \<Rightarrow> string" where
  "slot suggestions k = (if length suggestions \<ge> k + 1 then suggestions ! k else '' '')"

text \<open>
  The block under "Update word suggestions"; \<open>suggest\<close> stands for
  \<^verbatim>\<open>ddd.suggest\<close>, the dictionary collaborator.
\<close>

definition update_word_suggestions :: "(string \<Rightarrow> string list) \<Rightarrow> app_state \<Rightarrow> app_state" where
  "update_word_suggestions suggest s =
     (if length (strip (str s)) \<noteq> 0 then
        (let w = active_word (str s);
             s1 = s\<lparr>word := w\<rparr>
         in if length (strip w) \<noteq> 0 then
              (let suggestions = suggest w
               in s1\<lparr> word1 := slot suggestions 0,
                      word2 := slot suggestions 1,
                      word3 := slot suggestions 2,
                      word4 := slot suggestions 3 \<rparr>)
            else s1)
      else s)"

subsection \<open>One frame\<close>

text \<open>
  \<^verbatim>\<open>predict\<close> as a whole: \<open>cls\<close> is the \<^verbatim>\<open>argmax\<close> of the classifier's output
  for the frame. Without a model or with fewer than 21 landmarks it returns at once.
\<close>

definition predict :: "(string \<Rightarrow> string list) \<Rightarrow> int \<Rightarrow> app_state \<Rightarrow> outcome" where
  "predict suggest cls s =
     (if \<not> model_loaded s \<or> length (pts s) < 21 then Inr s
      else
        (case handle_character_addition (resolve cls (pts s)) s of
           Inl e \<Rightarrow> Inl e
         | Inr s' \<Rightarrow> Inr (update_word_suggestions suggest s')))"

text \<open>Feeding a sequence of resolved symbols, one per frame.\<close>

definition run :: "pyval list \<Rightarrow> app_state \<Rightarrow> app_state" where
  "run syms s = fold step syms s"

subsection \<open>Clearing\<close>

definition clear_text :: "app_state \<Rightarrow> app_state" where
  "clear_text s =
     s\<lparr> str := '' '',
        word1 := '' '', word2 := '' '', word3 := '' '', word4 := '' '',
        sentence_label := '''',
        char_label := '''' \<rparr>"

subsection \<open>Symbols the rules can produce\<close>

definition letters :: "string list" where
  "letters = [''A'', ''B'', ''C'', ''D'', ''E'', ''F'', ''G'', ''H'', ''J'', ''L'', ''O'', ''P'',
              ''S'', ''X'', ''Y'']"

definition resolved_symbols :: "pyval set" where
  "resolved_symbols = PStr ` (set letters \<union> {'' '', ''next''})"

text \<open>A history of ten slots, each holding a symbol the rules can produce.\<close>

definition well_formed :: "app_state \<Rightarrow> bool" where
  "well_formed s \<longleftrightarrow>
     length (ten_prev_char s) = 10 \<and> set (ten_prev_char s) \<subseteq> resolved_symbols"

text \<open>A frame as the collaborators deliver it: a class index from 0 to 7 and 21 landmarks.\<close>

definition valid_frame :: "int \<times> point list \<Rightarrow> bool" where
  "valid_frame f \<longleftrightarrow> 0 \<le> fst f \<and> fst f \<le> 7 \<and> length (snd f) = 21"

definition resolve_frame :: "int \<times> point list \<Rightarrow> pyval" where
  "resolve_frame f = resolve (fst f) (snd f)"

subsection \<open>Reading the suggestion slots\<close>

text \<open>The four slots in order, as \<^verbatim>\<open>apply_suggestion\<close> lists them.\<close>

definition suggestion_slots :: "app_state \<Rightarrow> string list" where
  "suggestion_slots s = [word1 s, word2 s, word3 s, word4 s]"

text \<open>The first four candidates, filled up to four entries with the blank placeholder.\<close>

definition pad4 :: "string list \<Rightarrow> string list" where
  "pad4 c = take 4 c @ replicate (4 - length (take 4 c)) '' ''"

text \<open>
  The refresh as the specification words it, for comparison with the source: the
  dictionary is asked for the lower-case form of the active word.
\<close>

definition lower_char :: "char \<Rightarrow> char" where
  "lower_char c =
     (let n = (of_char c :: nat) in if 65 \<le> n \<and> n \<le> 90 then char_of (n + 32) else c)"

definition lower :: "string \<Rightarrow> string" where
  "lower t = map lower_char t"

definition spec_refresh_suggestions :: "(string \<Rightarrow> string list) \<Rightarrow> string \<Rightarrow> string list" where
  "spec_refresh_suggestions dictionary sentence = pad4 (dictionary (lower (active_word sentence)))"

subsection \<open>Sample inputs\<close>

text \<open>A dictionary that returns its query, so that the slots show what it was asked.\<close>

definition echo_dictionary :: "string \<Rightarrow> string list" where
  "echo_dictionary w = [w]"

definition spelling_HEL :: app_state where
  "spelling_HEL = init_state\<lparr>str := '' HEL''\<rparr>"

text \<open>An empty sentence, with the backspace marker in the slot the first frame looks back at.\<close>

definition held_backspace :: app_state where
  "held_backspace =
     init_state\<lparr>str := [], ten_prev_char := (replicate 10 (PStr '' ''))[7 := PStr ''Backspace'']\<rparr>"

text \<open>Middle fingertip at distance exactly 42 from the thumb tip.\<close>

definition hand_at_42 :: "point list" where
  "hand_at_42 = (replicate 21 (0, 0))[12 := (42, 0)]"

text \<open>The same hand with the middle fingertip one unit further out.\<close>

definition hand_at_43 :: "point list" where
  "hand_at_43 = (replicate 21 (0, 0))[12 := (43, 0)]"

text \<open>Thumb tip left of point 6 and below the index tip at once.\<close>

definition hand_A_and_E :: "point list" where
  "hand_A_and_E = (replicate 21 (0, 0))[4 := (0, 5), 6 := (1, 0)]"

text \<open>Thumb tip left of point 5, with the index, middle and ring fingers bent.\<close>

definition hand_next :: "point list" where
  "hand_next = (replicate 21 (0, 0))[5 := (1, 0), 6 := (0, 1), 10 := (0, 1), 14 := (0, 1)]"

definition sample_frames :: "(int \<times> point list) list" where
  "sample_frames = [(0, hand_A_and_E), (0, hand_A_and_E), (0, hand_A_and_E)]"

section \<open>Properties\<close>

subsection \<open>Distances against integer thresholds\<close>

text \<open>
  The thresholds are compared with the square root of an integer, so each comparison
  is one between integers: \<open>42 = sqrt 1764\<close> and \<open>72 = sqrt 5184\<close>. The floating-point
  \<^verbatim>\<open>math.sqrt\<close> is monotone and exact on perfect squares, so it decides the same
  comparisons for coordinates of pixel size.
\<close>

lemma distance_gt_iff:
  assumes "0 \<le> d"
  shows "distance x y > real_of_int d \<longleftrightarrow> (fst x - fst y) ^ 2 + (snd x - snd y) ^ 2 > d ^ 2"
proof -
  let ?q = "(fst x - fst y) ^ 2 + (snd x - snd y) ^ 2"
  have "real_of_int d = sqrt (real_of_int (d ^ 2))"
    using assms by (simp add: real_sqrt_abs)
  then have "distance x y > real_of_int d \<longleftrightarrow> sqrt (real_of_int ?q) > sqrt (real_of_int (d ^ 2))"
    by (simp only: distance_def)
  also have "\<dots> \<longleftrightarrow> real_of_int ?q > real_of_int (d ^ 2)"
    by (rule real_sqrt_less_iff)
  also have "\<dots> \<longleftrightarrow> ?q > d ^ 2"
    by (rule of_int_less_iff)
  finally show ?thesis .
qed

lemma distance_gt_42:
  "distance x y > 42 \<longleftrightarrow> (fst x - fst y) ^ 2 + (snd x - snd y) ^ 2 > 1764"
  using distance_gt_iff [of 42 x y] by simp

lemma distance_gt_72:
  "distance x y > 72 \<longleftrightarrow> (fst x - fst y) ^ 2 + (snd x - snd y) ^ 2 > 5184"
  using distance_gt_iff [of 72 x y] by simp

lemma distance_eq_42:
  "distance x y = 42 \<longleftrightarrow> (fst x - fst y) ^ 2 + (snd x - snd y) ^ 2 = 1764"
proof -
  have "(42::real) = sqrt (real_of_int 1764)"
    using real_sqrt_abs [of 42] by simp
  then have "distance x y = 42 \<longleftrightarrow>
      sqrt (real_of_int ((fst x - fst y) ^ 2 + (snd x - snd y) ^ 2)) = sqrt (real_of_int 1764)"
    by (simp only: distance_def)
  also have "\<dots> \<longleftrightarrow> real_of_int ((fst x - fst y) ^ 2 + (snd x - snd y) ^ 2) = real_of_int 1764"
    by (rule real_sqrt_eq_iff)
  also have "\<dots> \<longleftrightarrow> (fst x - fst y) ^ 2 + (snd x - snd y) ^ 2 = 1764"
    by (rule of_int_eq_iff)
  finally show ?thesis .
qed

text \<open>The class rules with the three comparisons in integer form; this equation evaluates.\<close>

lemma prediction_rules_code [code]:
  "prediction_rules ch1 p =
     (if ch1 = 0 then
        PStr (if snd (p ! 4) > snd (p ! 8) then ''E''
              else if fst (p ! 4) < fst (p ! 6) then ''A'' else ''S'')
      else if ch1 = 2 then
        PStr (if (fst (p ! 12) - fst (p ! 4)) ^ 2 + (snd (p ! 12) - snd (p ! 4)) ^ 2 > 1764
              then ''C'' else ''O'')
      else if ch1 = 3 then
        PStr (if (fst (p ! 8) - fst (p ! 12)) ^ 2 + (snd (p ! 8) - snd (p ! 12)) ^ 2 > 5184
              then ''G'' else ''H'')
      else if ch1 = 4 then PStr ''L''
      else if ch1 = 5 then PStr ''P''
      else if ch1 = 6 then PStr ''X''
      else if ch1 = 7 then
        PStr (if (fst (p ! 8) - fst (p ! 4)) ^ 2 + (snd (p ! 8) - snd (p ! 4)) ^ 2 > 1764
              then ''Y'' else ''J'')
      else if ch1 = 1 then
        (if snd (p ! 6) > snd (p ! 8) \<and> snd (p ! 10) > snd (p ! 12) then PStr ''B''
         else if snd (p ! 6) > snd (p ! 8) \<and> snd (p ! 10) < snd (p ! 12) then PStr ''D''
         else PStr ''F'')
      else PInt ch1)"
  by (simp add: prediction_rules_def distance_gt_42 distance_gt_72 Let_def)

subsection \<open>The class rules and the overrides\<close>

lemma resolve_no_override:
  "\<not> space_gesture p \<Longrightarrow> \<not> next_gesture p \<Longrightarrow> resolve c p = prediction_rules c p"
  by (simp add: resolve_def special_gestures_def)

text \<open>
  Claim C4. On a 21-point landmark list with class 2 and neither override holding, the
  resolved symbol is \<open>C\<close> exactly when the Euclidean distance between point 12 and
  point 4 is strictly greater than 42, and \<open>O\<close> otherwise; a distance of exactly 42
  gives \<open>O\<close>. The distance is the square root of the sum of the squared coordinate
  differences, so the symbol is \<open>C\<close> exactly when that sum exceeds \<open>1764 = 42\<^sup>2\<close>
  and \<open>O\<close> exactly when it does not.
\<close>

theorem class2_C_or_O:
  assumes "length p = 21" and "\<not> space_gesture p" and "\<not> next_gesture p"
  shows "distance (p ! 12) (p ! 4) =
           sqrt (real_of_int ((fst (p ! 12) - fst (p ! 4)) ^ 2 + (snd (p ! 12) - snd (p ! 4)) ^ 2)) \<and>
         resolve 2 p = PStr (if distance (p ! 12) (p ! 4) > 42 then ''C'' else ''O'') \<and>
         (resolve 2 p = PStr ''C'' \<longleftrightarrow> distance (p ! 12) (p ! 4) > 42) \<and>
         (resolve 2 p = PStr ''O'' \<longleftrightarrow> distance (p ! 12) (p ! 4) \<le> 42) \<and>
         (distance (p ! 12) (p ! 4) = 42 \<longrightarrow> resolve 2 p = PStr ''O'') \<and>
         (resolve 2 p = PStr ''C'' \<longleftrightarrow>
            (fst (p ! 12) - fst (p ! 4)) ^ 2 + (snd (p ! 12) - snd (p ! 4)) ^ 2 > 1764) \<and>
         (resolve 2 p = PStr ''O'' \<longleftrightarrow>
            (fst (p ! 12) - fst (p ! 4)) ^ 2 + (snd (p ! 12) - snd (p ! 4)) ^ 2 \<le> 1764) \<and>
         ((fst (p ! 12) - fst (p ! 4)) ^ 2 + (snd (p ! 12) - snd (p ! 4)) ^ 2 = 1764 \<longrightarrow>
            distance (p ! 12) (p ! 4) = 42 \<and> resolve 2 p = PStr ''O'')"
proof -
  let ?q = "(fst (p ! 12) - fst (p ! 4)) ^ 2 + (snd (p ! 12) - snd (p ! 4)) ^ 2"
  have d: "distance (p ! 12) (p ! 4) = sqrt (real_of_int ?q)"
    by (simp only: distance_def)
  have r: "resolve 2 p = PStr (if distance (p ! 12) (p ! 4) > 42 then ''C'' else ''O'')"
    using assms by (simp add: resolve_no_override prediction_rules_def)
  have g: "distance (p ! 12) (p ! 4) > 42 \<longleftrightarrow> ?q > 1764"
    by (rule distance_gt_42)
  have e: "distance (p ! 12) (p ! 4) = 42 \<longleftrightarrow> ?q = 1764"
    by (rule distance_eq_42)
  have c1: "resolve 2 p = PStr ''C'' \<longleftrightarrow> distance (p ! 12) (p ! 4) > 42"
    by (simp add: r)
  have c2: "resolve 2 p = PStr ''O'' \<longleftrightarrow> distance (p ! 12) (p ! 4) \<le> 42"
    by (simp add: r)
  have c3: "distance (p ! 12) (p ! 4) = 42 \<longrightarrow> resolve 2 p = PStr ''O''"
    by (simp add: r)
  have c4: "resolve 2 p = PStr ''C'' \<longleftrightarrow> ?q > 1764"
    using c1 g by simp
  have c5: "resolve 2 p = PStr ''O'' \<longleftrightarrow> ?q \<le> 1764"
    using c2 g by (simp add: not_less [symmetric])
  have c6: "?q = 1764 \<longrightarrow> distance (p ! 12) (p ! 4) = 42 \<and> resolve 2 p = PStr ''O''"
    using e c3 by blast
  from d r c1 c2 c3 c4 c5 c6 show ?thesis
    by blast
qed

theorem class2_C_or_O_witness:
  "length hand_at_42 = 21 \<and> \<not> space_gesture hand_at_42 \<and> \<not> next_gesture hand_at_42 \<and>
   (fst (hand_at_42 ! 12) - fst (hand_at_42 ! 4)) ^ 2
     + (snd (hand_at_42 ! 12) - snd (hand_at_42 ! 4)) ^ 2 = 1764 \<and>
   distance (hand_at_42 ! 12) (hand_at_42 ! 4) = 42 \<and> resolve 2 hand_at_42 = PStr ''O'' \<and>
   length hand_at_43 = 21 \<and> \<not> space_gesture hand_at_43 \<and> \<not> next_gesture hand_at_43 \<and>
   (fst (hand_at_43 ! 12) - fst (hand_at_43 ! 4)) ^ 2
     + (snd (hand_at_43 ! 12) - snd (hand_at_43 ! 4)) ^ 2 = 1849 \<and>
   distance (hand_at_43 ! 12) (hand_at_43 ! 4) > 42 \<and> resolve 2 hand_at_43 = PStr ''C''"
proof -
  have h1: "length hand_at_42 = 21"
    by (simp add: hand_at_42_def)
  have h2: "\<not> space_gesture hand_at_42"
    by (simp add: hand_at_42_def space_gesture_def)
  have h3: "\<not> next_gesture hand_at_42"
    by (simp add: hand_at_42_def next_gesture_def)
  have h4: "(fst (hand_at_42 ! 12) - fst (hand_at_42 ! 4)) ^ 2
              + (snd (hand_at_42 ! 12) - snd (hand_at_42 ! 4)) ^ 2 = 1764"
    by (simp add: hand_at_42_def)
  have k1: "length hand_at_43 = 21"
    by (simp add: hand_at_43_def)
  have k2: "\<not> space_gesture hand_at_43"
    by (simp add: hand_at_43_def space_gesture_def)
  have k3: "\<not> next_gesture hand_at_43"
    by (simp add: hand_at_43_def next_gesture_def)
  have k4: "(fst (hand_at_43 ! 12) - fst (hand_at_43 ! 4)) ^ 2
              + (snd (hand_at_43 ! 12) - snd (hand_at_43 ! 4)) ^ 2 = 1849"
    by (simp add: hand_at_43_def)
  from class2_C_or_O [OF h1 h2 h3] class2_C_or_O [OF k1 k2 k3] h1 h2 h3 h4 k1 k2 k3 k4
  show ?thesis
    by simp
qed

text \<open>
  Claim C5. On a 21-point landmark list with class 0 and neither override holding, the
  resolved symbol is \<open>E\<close> whenever the thumb tip (point 4) lies below the index tip
  (point 8), that is, has the larger vertical coordinate; otherwise it is \<open>A\<close> when
  the thumb tip lies left of point 6, and \<open>S\<close> by default. The \<open>E\<close> test comes after
  the \<open>A\<close> test and overrides it when both hold.
\<close>

theorem class0_S_A_E:
  assumes "length p = 21" and "\<not> space_gesture p" and "\<not> next_gesture p"
  shows "resolve 0 p =
           PStr (if snd (p ! 4) > snd (p ! 8) then ''E''
                 else if fst (p ! 4) < fst (p ! 6) then ''A'' else ''S'') \<and>
         (snd (p ! 4) > snd (p ! 8) \<longrightarrow> resolve 0 p = PStr ''E'') \<and>
         (fst (p ! 4) < fst (p ! 6) \<and> \<not> snd (p ! 4) > snd (p ! 8) \<longrightarrow> resolve 0 p = PStr ''A'') \<and>
         (\<not> fst (p ! 4) < fst (p ! 6) \<and> \<not> snd (p ! 4) > snd (p ! 8) \<longrightarrow> resolve 0 p = PStr ''S'')"
  using assms by (simp add: resolve_no_override prediction_rules_def Let_def)

theorem class0_S_A_E_witness:
  "length hand_A_and_E = 21 \<and> \<not> space_gesture hand_A_and_E \<and> \<not> next_gesture hand_A_and_E \<and>
   fst (hand_A_and_E ! 4) < fst (hand_A_and_E ! 6) \<and>
   snd (hand_A_and_E ! 4) > snd (hand_A_and_E ! 8) \<and>
   resolve 0 hand_A_and_E = PStr ''E''"
proof -
  have h1: "length hand_A_and_E = 21"
    by (simp add: hand_A_and_E_def)
  have h2: "\<not> space_gesture hand_A_and_E"
    by (simp add: hand_A_and_E_def space_gesture_def)
  have h3: "\<not> next_gesture hand_A_and_E"
    by (simp add: hand_A_and_E_def next_gesture_def)
  have h4: "fst (hand_A_and_E ! 4) < fst (hand_A_and_E ! 6) \<and>
            snd (hand_A_and_E ! 4) > snd (hand_A_and_E ! 8)"
    by (simp add: hand_A_and_E_def)
  from class0_S_A_E [OF h1 h2 h3] h1 h2 h3 h4 show ?thesis
    by simp
qed

text \<open>
  Claim C6. On a 21-point landmark list the blank override (6/8 bent, 10/12 extended,
  14/16 extended, 18/20 bent) and the next override (point 4 left of point 5, and 6/8,
  10/12, 14/16 bent) never hold together, since they ask opposite orders of points 10
  and 12. The next test comes last: whenever its condition holds the result is the next
  marker, whatever the class and even over a blank set just before.
\<close>

theorem overrides_exclusive:
  assumes "length p = 21"
  shows "\<not> (space_gesture p \<and> next_gesture p) \<and>
         (next_gesture p \<longrightarrow> resolve c p = PStr ''next'') \<and>
         (space_gesture p \<longrightarrow> resolve c p = PStr '' '') \<and>
         (next_gesture p \<longrightarrow> special_gestures p (PStr '' '') = PStr ''next'')"
  by (auto simp: resolve_def special_gestures_def space_gesture_def next_gesture_def)

theorem overrides_exclusive_witness:
  "length hand_next = 21 \<and> next_gesture hand_next \<and> \<not> space_gesture hand_next \<and>
   resolve 0 hand_next = PStr ''next''"
proof -
  have h1: "length hand_next = 21"
    by (simp add: hand_next_def)
  have h2: "next_gesture hand_next"
    by (simp add: hand_next_def next_gesture_def)
  from overrides_exclusive [OF h1, of 0] h1 h2 show ?thesis
    by simp
qed

subsection \<open>The commit step\<close>

lemmas step_simps = step_def handle_character_addition_def commit_def record_symbol_def
  state_after_def lookback_def Let_def run_def

lemma commit_not_next:
  "ch1 \<noteq> PStr ''next'' \<Longrightarrow> commit ch1 s = Inr s"
  by (simp add: commit_def)

lemma commit_raise_same: "commit ch1 s = Inl (e, s') \<Longrightarrow> s' = s"
  by (auto simp: commit_def Let_def split: if_splits pyval.splits)

lemma str_record_symbol:
  "str (state_after (record_symbol ch1 s)) = str s"
  by (simp add: record_symbol_def state_after_def Let_def)

lemma prev_char_record_symbol:
  "prev_char (state_after (record_symbol ch1 s)) = ch1"
  by (simp add: record_symbol_def state_after_def Let_def)

lemma lookback_lt_10: "lookback s < 10"
  by (simp add: lookback_def)

text \<open>
  Claim C2. A symbol other than the next marker never changes the sentence: for every
  state and every such symbol (a letter, the blank, the backspace marker, or a class
  index left unresolved), the step leaves \<open>str\<close> as it was. The commit branch is not
  entered, so nothing is appended, removed or raised there.
\<close>

theorem only_next_commits:
  "ch1 \<noteq> PStr ''next'' \<Longrightarrow>
     commit ch1 s = Inr s \<and> str (step ch1 s) = str s"
  by (simp add: commit_not_next step_def handle_character_addition_def str_record_symbol)

theorem only_next_commits_witness:
  "PStr ''A'' \<noteq> PStr ''next'' \<and> PStr ''Backspace'' \<noteq> PStr ''next'' \<and>
   str (step (PStr ''A'') spelling_HEL) = '' HEL'' \<and>
   str (step (PStr ''Backspace'') spelling_HEL) = '' HEL''"
  using only_next_commits [of "PStr ''A''" spelling_HEL]
        only_next_commits [of "PStr ''Backspace''" spelling_HEL]
  by (simp add: spelling_HEL_def)

text \<open>A step that follows a next marker leaves the sentence alone.\<close>

lemma step_armed:
  "prev_char s = PStr ''next'' \<Longrightarrow> str (step ch1 s) = str s"
  by (simp add: step_def handle_character_addition_def commit_def str_record_symbol)

text \<open>
  A step either raises inside the commit, leaving the state as it was, or gets as far
  as recording its symbol as the previous one.
\<close>

lemma step_next_cases:
  "step ch1 s = s \<or> prev_char (step ch1 s) = ch1"
proof (cases "commit ch1 s")
  case (Inl a)
  then obtain e s' where "a = (e, s')" by (cases a)
  with Inl have "commit ch1 s = Inl (e, s)" using commit_raise_same by blast
  then show ?thesis
    by (simp add: step_def handle_character_addition_def state_after_def)
next
  case (Inr s')
  then show ?thesis
    by (simp add: step_def handle_character_addition_def prev_char_record_symbol)
qed

lemma step_twice:
  "str (step (PStr ''next'') (step (PStr ''next'') s)) = str (step (PStr ''next'') s)"
  using step_next_cases [of "PStr ''next''" s] step_armed by auto

text \<open>
  Claim C3. The commit is edge-triggered. From every state, of three next markers in
  a row only the first can change the sentence: the second and the third leave it as
  the first left it, and when the previous symbol is already the next marker the first
  changes nothing either.
\<close>

theorem next_edge_triggered:
  "str (step (PStr ''next'') (step (PStr ''next'') s)) = str (step (PStr ''next'') s) \<and>
   str (run [PStr ''next'', PStr ''next'', PStr ''next''] s) = str (step (PStr ''next'') s) \<and>
   (prev_char s = PStr ''next'' \<longrightarrow>
      str (run [PStr ''next'', PStr ''next'', PStr ''next''] s) = str s)"
  by (simp add: run_def step_twice step_armed)

theorem next_edge_triggered_witness:
  "prev_char (init_state\<lparr>prev_char := PStr ''next''\<rparr>) = PStr ''next'' \<and>
   str (run [PStr ''next'', PStr ''next'', PStr ''next'']
          (init_state\<lparr>prev_char := PStr ''next''\<rparr>)) = '' ''"
  using next_edge_triggered [of "init_state\<lparr>prev_char := PStr ''next''\<rparr>"]
  by (simp add: init_state_def step_simps)

text \<open>
  Claim C1 as stated fails. \<open>count\<close> is the index of the slot written by the previous
  frame (it starts at \<open>- 1\<close> and is incremented before the write), so slot
  \<open>(count - 2) mod 10\<close> holds the symbol of three frames before the current one. After
  \<open>A, A\<close> the next marker looks at slot 9, still blank: a blank is appended, not \<open>A\<close>.
  After \<open>A, Backspace\<close> it looks at the same blank slot: a blank is appended and nothing
  is removed.
\<close>

theorem lookback_counterexample:
  "str (run [PStr ''A'', PStr ''A'', PStr ''next''] init_state) = ''  '' \<and>
   str (run [PStr ''A'', PStr ''A'', PStr ''next''] init_state) \<noteq> str init_state @ ''A'' \<and>
   str (run [PStr ''A'', PStr ''Backspace'', PStr ''next''] init_state) = ''  '' \<and>
   str (run [PStr ''A'', PStr ''Backspace'', PStr ''next''] init_state) \<noteq> butlast (str init_state)"
  by (simp add: step_simps init_state_def)

text \<open>
  Claim C1, amended. From the initial state the lookback reaches three frames back:
  \<open>A, A, A, next\<close> appends \<open>A\<close> (the lookback lands on slot 0, the first \<open>A\<close>), and
  \<open>Backspace, A, A, next\<close> removes the last character instead of appending; after
  only two frames, \<open>A, A, next\<close> appends the blank of the untouched slot 9.
\<close>

theorem three_frame_lookback:
  "lookback (run [PStr ''A'', PStr ''A'', PStr ''A''] init_state) = 0 \<and>
   str (run [PStr ''A'', PStr ''A'', PStr ''A'', PStr ''next''] init_state) = str init_state @ ''A'' \<and>
   str (run [PStr ''Backspace'', PStr ''A'', PStr ''A'', PStr ''next''] init_state)
     = butlast (str init_state) \<and>
   lookback (run [PStr ''A'', PStr ''A''] init_state) = 9 \<and>
   ten_prev_char (run [PStr ''A'', PStr ''A''] init_state) ! 9 = PStr '' '' \<and>
   str (run [PStr ''A'', PStr ''A'', PStr ''next''] init_state) = str init_state @ '' ''"
  by (simp add: step_simps init_state_def)

subsection \<open>The lag of the lookback in general\<close>

lemma record_symbol_ok:
  assumes "length (ten_prev_char s) = 10"
  shows "record_symbol ch1 s =
           Inr (s\<lparr>prev_char := ch1,
                  current_symbol := (case ch1 of PStr t \<Rightarrow> t | PInt n \<Rightarrow> []),
                  count := count s + 1,
                  ten_prev_char := (ten_prev_char s)[nat ((count s + 1) mod 10) := ch1]\<rparr>)"
  using assms by (simp add: record_symbol_def Let_def)

lemma step_plain:
  assumes "length (ten_prev_char s) = 10" and "ch1 \<noteq> PStr ''next''"
  shows "str (step ch1 s) = str s"
    and "prev_char (step ch1 s) = ch1"
    and "count (step ch1 s) = count s + 1"
    and "ten_prev_char (step ch1 s) = (ten_prev_char s)[nat ((count s + 1) mod 10) := ch1]"
    and "length (ten_prev_char (step ch1 s)) = 10"
  using assms
  by (simp_all add: step_def handle_character_addition_def commit_not_next record_symbol_ok
      state_after_def)

lemma slots_distinct:
  fixes n :: int
  shows "nat ((n + 1) mod 10) \<noteq> nat ((n + 1 + 1) mod 10) \<and>
         nat ((n + 1) mod 10) \<noteq> nat ((n + 2 + 1) mod 10)"
proof -
  have "(n + 1) mod 10 \<noteq> (n + 1 + 1) mod 10"
    by presburger
  moreover have "(n + 1) mod 10 \<noteq> (n + 2 + 1) mod 10"
    by presburger
  ultimately show ?thesis
    by (simp add: eq_nat_nat_iff)
qed

text \<open>
  The same lag from any state with a ten-slot history: a letter followed by two frames
  that are not next markers is what the next marker then appends.
\<close>

lemma lag_three:
  assumes len: "length (ten_prev_char s) = 10"
    and a: "a = PStr t" "t \<noteq> ''next''" "t \<noteq> ''Backspace''"
    and b: "b \<noteq> PStr ''next''" and c: "c \<noteq> PStr ''next''"
  shows "str (run [a, b, c, PStr ''next''] s) = str s @ t"
proof -
  define s1 where "s1 = step a s"
  define s2 where "s2 = step b s1"
  define s3 where "s3 = step c s2"
  define j1 where "j1 = nat ((count s + 1) mod 10)"
  define j2 where "j2 = nat ((count s1 + 1) mod 10)"
  define j3 where "j3 = nat ((count s2 + 1) mod 10)"
  have a': "a \<noteq> PStr ''next''" using a by simp
  note f1 = step_plain [OF len a', folded s1_def]
  note f2 = step_plain [OF f1(5) b, folded s2_def]
  note f3 = step_plain [OF f2(5) c, folded s3_def]
  have cnt: "count s1 = count s + 1" "count s2 = count s + 2" "count s3 = count s + 3"
    using f1(3) f2(3) f3(3) by simp_all
  have lb: "lookback s3 = j1"
  proof -
    have "count s3 - 2 = count s + 1"
      using cnt by simp
    then show ?thesis
      by (simp only: lookback_def j1_def)
  qed
  have d: "j1 \<noteq> j2" "j1 \<noteq> j3"
    unfolding j1_def j2_def j3_def cnt using slots_distinct [of "count s"] by simp_all
  have "j1 < length (ten_prev_char s)"
    using len by (simp add: j1_def)
  then have v: "ten_prev_char s3 ! lookback s3 = a"
    using d by (simp add: lb f3(4) f2(4) f1(4) flip: j1_def j2_def j3_def)
  have cm: "commit (PStr ''next'') s3 = Inr (s3\<lparr>str := str s3 @ t\<rparr>)"
    using f3(2) c v a f3(5) lookback_lt_10 [of s3] by (simp add: commit_def)
  have "str (step (PStr ''next'') s3) = str s3 @ t"
    using str_record_symbol [of "PStr ''next''" "s3\<lparr>str := str s3 @ t\<rparr>"]
    by (simp add: step_def handle_character_addition_def cm)
  moreover have "str s3 = str s"
    using f1(1) f2(1) f3(1) by simp
  moreover have "run [a, b, c, PStr ''next''] s = step (PStr ''next'') s3"
    by (simp add: run_def s1_def s2_def s3_def)
  ultimately show ?thesis
    by simp
qed

subsection \<open>Whitespace and the active word\<close>

lemma strip_empty_iff: "strip t = [] \<longleftrightarrow> (\<forall>c \<in> set t. isspace c)"
proof
  assume "strip t = []"
  then have "dropWhile isspace (rev (dropWhile isspace t)) = []"
    by (simp add: strip_def)
  then have "\<forall>c \<in> set (dropWhile isspace t). isspace c"
    by (simp add: dropWhile_eq_Nil_conv)
  then have "dropWhile isspace t = []"
    by (metis hd_dropWhile hd_in_set)
  then show "\<forall>c \<in> set t. isspace c"
    by (simp add: dropWhile_eq_Nil_conv)
next
  assume "\<forall>c \<in> set t. isspace c"
  then show "strip t = []"
    by (auto simp: strip_def dest: set_dropWhileD)
qed

lemma strip_butlast: "strip t = [] \<Longrightarrow> strip (butlast t) = []"
  by (auto simp: strip_empty_iff dest: in_set_butlastD)

text \<open>
  Claim C9. Removing the last character never fails. When the next marker arrives on a
  rising edge and the lookback slot holds the backspace marker, the step returns
  normally with \<open>str\<close> cut by its last character: an empty \<open>str\<close> stays empty, a text
  that displays as empty (blanks only) still does, and a non-empty \<open>str\<close> loses exactly
  its final character.
\<close>

theorem delete_last_total:
  assumes "prev_char s \<noteq> PStr ''next''"
    and "length (ten_prev_char s) = 10"
    and "ten_prev_char s ! lookback s = PStr ''Backspace''"
  shows "\<exists>s'. handle_character_addition (PStr ''next'') s = Inr s' \<and>
           str s' = butlast (str s) \<and>
           (str s = [] \<longrightarrow> str s' = []) \<and>
           (strip (str s) = [] \<longrightarrow> strip (str s') = []) \<and>
           (str s \<noteq> [] \<longrightarrow> str s' @ [last (str s)] = str s)"
proof -
  have c: "commit (PStr ''next'') s = Inr (s\<lparr>str := butlast (str s)\<rparr>)"
    using assms lookback_lt_10 [of s] by (simp add: commit_def)
  have "nat ((count s + 1) mod 10) < 10"
    by simp
  then obtain s' where r: "record_symbol (PStr ''next'') (s\<lparr>str := butlast (str s)\<rparr>) = Inr s'"
    using assms(2) by (simp add: record_symbol_def Let_def)
  then have "str s' = butlast (str s)"
    using str_record_symbol [of "PStr ''next''" "s\<lparr>str := butlast (str s)\<rparr>"]
    by (simp add: state_after_def)
  with c r show ?thesis
    by (auto simp: handle_character_addition_def strip_butlast)
qed

theorem delete_last_total_witness:
  "prev_char held_backspace \<noteq> PStr ''next'' \<and>
   length (ten_prev_char held_backspace) = 10 \<and>
   ten_prev_char held_backspace ! lookback held_backspace = PStr ''Backspace'' \<and>
   str held_backspace = [] \<and>
   (\<exists>s'. handle_character_addition (PStr ''next'') held_backspace = Inr s' \<and> str s' = [])"
proof -
  have h1: "prev_char held_backspace \<noteq> PStr ''next''"
    by (simp add: held_backspace_def init_state_def)
  have h2: "length (ten_prev_char held_backspace) = 10"
    by (simp add: held_backspace_def init_state_def)
  have h3: "ten_prev_char held_backspace ! lookback held_backspace = PStr ''Backspace''"
    by (simp add: held_backspace_def init_state_def lookback_def)
  have h4: "str held_backspace = []"
    by (simp add: held_backspace_def)
  from delete_last_total [OF h1 h2 h3] h1 h2 h3 h4 show ?thesis
    by auto
qed

text \<open>
  Claim C8. \<open>clear_text\<close> puts \<open>str\<close> back to its initial one-blank value, which
  displays as the empty sentence, and the four suggestion slots to the blank
  placeholder. Besides the two labels it redraws, nothing else changes: the history,
  the previous symbol and the frame counter are untouched.
\<close>

theorem clear_text_frame:
  "str (clear_text s) = str init_state \<and> strip (str (clear_text s)) = [] \<and>
   suggestion_slots (clear_text s) = ['' '', '' '', '' '', '' ''] \<and>
   ten_prev_char (clear_text s) = ten_prev_char s \<and>
   prev_char (clear_text s) = prev_char s \<and>
   count (clear_text s) = count s \<and>
   clear_text s =
     s\<lparr>str := '' '', word1 := '' '', word2 := '' '', word3 := '' '', word4 := '' '',
       sentence_label := [], char_label := []\<rparr>"
  by (simp add: clear_text_def init_state_def suggestion_slots_def strip_def isspace_def)

subsection \<open>What the rules can put into the history\<close>

lemma prediction_rules_range:
  assumes "0 \<le> c" and "c \<le> 7"
  shows "prediction_rules c p \<in> resolved_symbols"
proof -
  from assms have "c = 0 \<or> c = 1 \<or> c = 2 \<or> c = 3 \<or> c = 4 \<or> c = 5 \<or> c = 6 \<or> c = 7"
    by arith
  then show ?thesis
    by (auto simp: prediction_rules_def resolved_symbols_def letters_def Let_def)
qed

lemma resolve_range:
  assumes "0 \<le> c" and "c \<le> 7"
  shows "resolve c p \<in> resolved_symbols"
proof -
  have "PStr '' '' \<in> resolved_symbols" and "PStr ''next'' \<in> resolved_symbols"
    by (simp_all add: resolved_symbols_def)
  with prediction_rules_range [OF assms, of p] show ?thesis
    by (simp add: resolve_def special_gestures_def Let_def)
qed

lemma backspace_not_resolved: "PStr ''Backspace'' \<notin> resolved_symbols"
  by (auto simp: resolved_symbols_def letters_def)

lemma resolved_is_string: "v \<in> resolved_symbols \<Longrightarrow> \<exists>t. v = PStr t"
  by (auto simp: resolved_symbols_def)

text \<open>On a well-formed state the commit returns, keeps the history and can only append.\<close>

lemma commit_well_formed:
  assumes "well_formed s"
  shows "\<exists>s'. commit ch1 s = Inr s' \<and> ten_prev_char s' = ten_prev_char s \<and>
              (str s' = str s \<or> (\<exists>t. str s' = str s @ t))"
proof (cases "ch1 = PStr ''next'' \<and> prev_char s \<noteq> PStr ''next''")
  case False
  then show ?thesis by (auto simp: commit_def)
next
  case True
  from assms have len: "lookback s < length (ten_prev_char s)"
    using lookback_lt_10 [of s] by (simp add: well_formed_def)
  then have "ten_prev_char s ! lookback s \<in> resolved_symbols"
    using assms nth_mem [OF len] by (auto simp: well_formed_def)
  then obtain t where v: "ten_prev_char s ! lookback s = PStr t" and "PStr t \<noteq> PStr ''Backspace''"
    using resolved_is_string backspace_not_resolved by metis
  with True len show ?thesis
    by (simp add: commit_def Let_def)
qed

lemma record_symbol_well_formed:
  assumes "length (ten_prev_char s) = 10" and "set (ten_prev_char s) \<subseteq> resolved_symbols"
    and "ch1 \<in> resolved_symbols"
  shows "\<exists>s'. record_symbol ch1 s = Inr s' \<and> well_formed s' \<and> str s' = str s"
proof -
  have "nat ((count s + 1) mod 10) < 10" by simp
  moreover have "set ((ten_prev_char s)[nat ((count s + 1) mod 10) := ch1]) \<subseteq> resolved_symbols"
    using assms(2,3) set_update_subset_insert [of "ten_prev_char s" "nat ((count s + 1) mod 10)" ch1]
    by blast
  ultimately show ?thesis
    using assms(1) by (simp add: record_symbol_def Let_def well_formed_def)
qed

lemma handle_well_formed:
  assumes "well_formed s" and "ch1 \<in> resolved_symbols"
  shows "\<exists>s'. handle_character_addition ch1 s = Inr s' \<and> well_formed s' \<and>
              length (str s) \<le> length (str s')"
proof -
  from commit_well_formed [OF assms(1), of ch1] obtain s1 where
    c: "commit ch1 s = Inr s1" and h: "ten_prev_char s1 = ten_prev_char s"
    and g: "str s1 = str s \<or> (\<exists>t. str s1 = str s @ t)"
    by blast
  from assms(1) h have "length (ten_prev_char s1) = 10" "set (ten_prev_char s1) \<subseteq> resolved_symbols"
    by (simp_all add: well_formed_def)
  from record_symbol_well_formed [OF this assms(2)] obtain s2 where
    r: "record_symbol ch1 s1 = Inr s2" and w: "well_formed s2" and e: "str s2 = str s1"
    by blast
  from g e have "length (str s) \<le> length (str s2)" by auto
  with c r w show ?thesis
    by (simp add: handle_character_addition_def)
qed

lemma step_well_formed:
  assumes "well_formed s" and "ch1 \<in> resolved_symbols"
  shows "well_formed (step ch1 s)"
  using handle_well_formed [OF assms] by (auto simp: step_def state_after_def)

lemma run_well_formed:
  "well_formed s \<Longrightarrow> set syms \<subseteq> resolved_symbols \<Longrightarrow> well_formed (run syms s)"
proof (induction syms arbitrary: s)
  case Nil
  then show ?case by (simp add: run_def)
next
  case (Cons a syms)
  then have "well_formed (step a s)" by (simp add: step_well_formed)
  with Cons show ?case by (simp add: run_def)
qed

lemma init_well_formed: "well_formed init_state"
  by (simp add: well_formed_def init_state_def resolved_symbols_def)

text \<open>
  Claim C10. For a class index from 0 to 7 and 21 landmarks the resolved symbol is one
  of the letters A, B, C, D, E, F, G, H, J, L, O, P, S, X, Y, the blank or the next
  marker, never the backspace marker. Hence, in the state reached from the initial one
  by any sequence of such frames, no history slot holds the backspace marker, the
  lookback never finds it, and one more frame returns normally without shortening
  \<open>str\<close>.
\<close>

theorem delete_never_reached:
  assumes "list_all valid_frame frames" and "valid_frame g"
  shows "resolve_frame g \<in> resolved_symbols \<and> resolve_frame g \<noteq> PStr ''Backspace'' \<and>
         (let s = run (map resolve_frame frames) init_state in
            PStr ''Backspace'' \<notin> set (ten_prev_char s) \<and>
            ten_prev_char s ! lookback s \<noteq> PStr ''Backspace'' \<and>
            (\<exists>s'. handle_character_addition (resolve_frame g) s = Inr s' \<and>
                   length (str s) \<le> length (str s')) \<and>
            length (str s) \<le> length (str (step (resolve_frame g) s)))"
proof -
  let ?s = "run (map resolve_frame frames) init_state"
  have g: "resolve_frame g \<in> resolved_symbols"
    using assms(2) by (simp add: valid_frame_def resolve_frame_def resolve_range)
  have "set (map resolve_frame frames) \<subseteq> resolved_symbols"
    using assms(1) by (auto simp: list_all_iff valid_frame_def resolve_frame_def resolve_range)
  then have w: "well_formed ?s"
    using init_well_formed run_well_formed by blast
  then have nb: "PStr ''Backspace'' \<notin> set (ten_prev_char ?s)"
    using backspace_not_resolved by (auto simp: well_formed_def)
  have "lookback ?s < length (ten_prev_char ?s)"
    using w lookback_lt_10 [of ?s] by (simp add: well_formed_def)
  then have nl: "ten_prev_char ?s ! lookback ?s \<noteq> PStr ''Backspace''"
    using nb nth_mem by metis
  from handle_well_formed [OF w g] obtain s' where
    h: "handle_character_addition (resolve_frame g) ?s = Inr s'" "length (str ?s) \<le> length (str s')"
    by blast
  then have "length (str ?s) \<le> length (str (step (resolve_frame g) ?s))"
    by (simp add: step_def state_after_def)
  with g nb nl h backspace_not_resolved show ?thesis
    by (auto simp: Let_def)
qed

theorem delete_never_reached_witness:
  "list_all valid_frame sample_frames \<and> valid_frame (1, hand_next) \<and>
   resolve_frame (1, hand_next) = PStr ''next'' \<and>
   str (run (map resolve_frame sample_frames) init_state) = '' '' \<and>
   str (step (resolve_frame (1, hand_next)) (run (map resolve_frame sample_frames) init_state)) = '' E'' \<and>
   length (str (run (map resolve_frame sample_frames) init_state))
     \<le> length (str (step (resolve_frame (1, hand_next)) (run (map resolve_frame sample_frames) init_state)))"
proof -
  have h1: "list_all valid_frame sample_frames"
    by (simp add: sample_frames_def valid_frame_def hand_A_and_E_def)
  have h2: "valid_frame (1, hand_next)"
    by (simp add: valid_frame_def hand_next_def)
  have e: "resolve_frame (0, hand_A_and_E) = PStr ''E''"
    by code_simp
  have n: "resolve_frame (1, hand_next) = PStr ''next''"
    by code_simp
  have s: "str (run (map resolve_frame sample_frames) init_state) = '' ''"
    by (simp add: sample_frames_def e step_simps init_state_def)
  have t: "str (step (resolve_frame (1, hand_next)) (run (map resolve_frame sample_frames) init_state)) = '' E''"
    by (simp add: sample_frames_def e n step_simps init_state_def)
  from delete_never_reached [OF h1 h2] h1 h2 n s t show ?thesis
    by (simp add: Let_def)
qed

subsection \<open>The suggestion refresh\<close>

text \<open>The active word is the longest suffix of the text without a blank.\<close>

lemma active_word_takeWhile:
  "active_word t = rev (takeWhile (\<lambda>x. x \<noteq> CHR '' '') (rev t))"
proof (cases "CHR '' '' \<in> set t")
  case False
  then have tw: "takeWhile (\<lambda>x. x \<noteq> CHR '' '') (rev t) = rev t"
    by (intro takeWhile_eq_all_conv [THEN iffD2]) auto
  have "active_word t = t"
    using False by (simp add: active_word_def rfind_def)
  then show ?thesis
    by (simp only: tw rev_rev_ident)
next
  case True
  let ?k = "length (takeWhile (\<lambda>x. x \<noteq> CHR '' '') (rev t))"
  have "?k < length (rev t)"
  proof -
    have "takeWhile (\<lambda>x. x \<noteq> CHR '' '') (rev t) \<noteq> rev t"
      using True by (auto simp: takeWhile_eq_all_conv)
    then have "?k \<noteq> length (rev t)"
      by (metis takeWhile_eq_take take_all order_refl)
    then show ?thesis
      using length_takeWhile_le [of "\<lambda>x. x \<noteq> CHR '' ''" "rev t"] by linarith
  qed
  then have k: "?k < length t" by simp
  then have "nat (rfind (CHR '' '') t + 1) = length t - ?k"
    using True by (simp add: rfind_def)
  then have "active_word t = drop (length t - ?k) t"
    by (simp add: active_word_def)
  also have "\<dots> = rev (take ?k (rev t))"
    by (simp add: take_rev)
  also have "take ?k (rev t) = takeWhile (\<lambda>x. x \<noteq> CHR '' '') (rev t)"
    using takeWhile_eq_take [of "\<lambda>x. x \<noteq> CHR '' ''" "rev t"] by simp
  finally show ?thesis .
qed

lemma set_active_word: "set (active_word t) \<subseteq> set t - {CHR '' ''}"
  by (auto simp: active_word_takeWhile dest: set_takeWhileD)

lemma strip_active_word: "strip (active_word t) \<noteq> [] \<Longrightarrow> strip t \<noteq> []"
  using set_active_word [of t] by (auto simp: strip_empty_iff)

text \<open>
  In a text whose only whitespace is the blank, as gestures build it, a non-empty
  active word passes the source's test \<^verbatim>\<open>len(word.strip()) != 0\<close>.
\<close>

lemma active_word_nonblank:
  assumes "active_word t \<noteq> []" and "\<forall>c \<in> set t. isspace c \<longrightarrow> c = CHR '' ''"
  shows "strip (active_word t) \<noteq> []"
proof -
  from assms(1) obtain c where c: "c \<in> set (active_word t)"
    by (cases "active_word t") auto
  with set_active_word [of t] have "c \<in> set t" "c \<noteq> CHR '' ''" by auto
  with assms(2) have "\<not> isspace c" by blast
  with c show ?thesis by (auto simp: strip_empty_iff)
qed

lemma slots_pad4: "map (slot c) [0, 1, 2, 3] = pad4 c"
proof (cases c)
  case Nil
  then show ?thesis by (simp add: slot_def pad4_def numeral_eq_Suc)
next
  case c1: (Cons a1 r1)
  show ?thesis
  proof (cases r1)
    case Nil
    with c1 show ?thesis by (simp add: slot_def pad4_def numeral_eq_Suc)
  next
    case c2: (Cons a2 r2)
    show ?thesis
    proof (cases r2)
      case Nil
      with c1 c2 show ?thesis by (simp add: slot_def pad4_def numeral_eq_Suc)
    next
      case c3: (Cons a3 r3)
      show ?thesis
      proof (cases r3)
        case Nil
        with c1 c2 c3 show ?thesis by (simp add: slot_def pad4_def numeral_eq_Suc)
      next
        case (Cons a4 r4)
        with c1 c2 c3 show ?thesis by (simp add: slot_def pad4_def numeral_eq_Suc)
      qed
    qed
  qed
qed

text \<open>
  Claim C7 as stated fails. The source passes the active word to the dictionary as it
  stands in \<open>str\<close>, in upper case as the rules spell it; no lower-case form is taken.
  With a dictionary that answers with its query, the text \<open>HEL\<close> fills the first slot
  with \<open>HEL\<close>, where a lower-case query would have given \<open>hel\<close>.
\<close>

theorem lowercase_counterexample:
  "active_word (str spelling_HEL) \<noteq> [] \<and>
   suggestion_slots (update_word_suggestions echo_dictionary spelling_HEL)
     = [''HEL'', '' '', '' '', '' ''] \<and>
   spec_refresh_suggestions echo_dictionary (str spelling_HEL) = [''hel'', '' '', '' '', '' ''] \<and>
   suggestion_slots (update_word_suggestions echo_dictionary spelling_HEL)
     \<noteq> spec_refresh_suggestions echo_dictionary (str spelling_HEL)"
  by code_simp

text \<open>
  Claim C7, amended. Whenever the active word holds a character that is not
  whitespace, the refresh asks the dictionary for that word exactly as it stands in the
  sentence, keeps the first four candidates in the order returned and fills the
  remaining slots with the blank placeholder; the sentence itself is not changed.
\<close>

theorem suggestions_refresh:
  assumes "strip (active_word (str s)) \<noteq> []"
  shows "suggestion_slots (update_word_suggestions suggest s)
           = pad4 (suggest (active_word (str s))) \<and>
         word1 (update_word_suggestions suggest s) = slot (suggest (active_word (str s))) 0 \<and>
         word2 (update_word_suggestions suggest s) = slot (suggest (active_word (str s))) 1 \<and>
         word3 (update_word_suggestions suggest s) = slot (suggest (active_word (str s))) 2 \<and>
         word4 (update_word_suggestions suggest s) = slot (suggest (active_word (str s))) 3 \<and>
         length (suggestion_slots (update_word_suggestions suggest s)) = 4 \<and>
         word (update_word_suggestions suggest s) = active_word (str s) \<and>
         str (update_word_suggestions suggest s) = str s"
proof -
  have "strip (str s) \<noteq> []"
    using assms by (rule strip_active_word)
  with assms have
    m: "suggestion_slots (update_word_suggestions suggest s)
          = map (slot (suggest (active_word (str s)))) [0, 1, 2, 3]"
    and w: "word (update_word_suggestions suggest s) = active_word (str s)"
    and t: "str (update_word_suggestions suggest s) = str s"
    by (simp_all add: update_word_suggestions_def suggestion_slots_def Let_def)
  from m have p: "suggestion_slots (update_word_suggestions suggest s)
                    = pad4 (suggest (active_word (str s)))"
    by (simp only: slots_pad4)
  from m have "word1 (update_word_suggestions suggest s) = slot (suggest (active_word (str s))) 0"
    and "word2 (update_word_suggestions suggest s) = slot (suggest (active_word (str s))) 1"
    and "word3 (update_word_suggestions suggest s) = slot (suggest (active_word (str s))) 2"
    and "word4 (update_word_suggestions suggest s) = slot (suggest (active_word (str s))) 3"
    by (simp_all add: suggestion_slots_def)
  moreover have "length (suggestion_slots (update_word_suggestions suggest s)) = 4"
    by (simp add: suggestion_slots_def)
  ultimately show ?thesis
    using p w t by blast
qed

theorem suggestions_refresh_witness:
  "strip (active_word (str spelling_HEL)) \<noteq> [] \<and>
   active_word (str spelling_HEL) = ''HEL'' \<and>
   suggestion_slots (update_word_suggestions echo_dictionary spelling_HEL)
     = [''HEL'', '' '', '' '', '' '']"
proof -
  have a: "active_word (str spelling_HEL) = ''HEL''"
    by (simp add: spelling_HEL_def active_word_def rfind_def)
  have h: "strip (active_word (str spelling_HEL)) \<noteq> []"
    by (simp add: a strip_def isspace_def)
  from suggestions_refresh [OF h, of echo_dictionary] a h show ?thesis
    by (simp add: echo_dictionary_def pad4_def numeral_eq_Suc)
qed

subsection \<open>The frame as a whole\<close>

text \<open>The refresh never touches the sentence, the history or the counter.\<close>

lemma update_word_suggestions_frame:
  "str (update_word_suggestions suggest s) = str s \<and>
   ten_prev_char (update_word_suggestions suggest s) = ten_prev_char s \<and>
   prev_char (update_word_suggestions suggest s) = prev_char s \<and>
   count (update_word_suggestions suggest s) = count s"
  by (simp add: update_word_suggestions_def Let_def)

text \<open>Without a model, or with fewer than 21 landmarks, the frame changes nothing.\<close>

lemma predict_skips:
  "\<not> model_loaded s \<or> length (pts s) < 21 \<Longrightarrow> predict suggest cls s = Inr s"
  by (simp add: predict_def)

text \<open>Otherwise the sentence after the frame is the one the commit step leaves.\<close>

lemma predict_str:
  assumes "model_loaded s" and "21 \<le> length (pts s)"
  shows "str (state_after (predict suggest cls s)) = str (step (resolve cls (pts s)) s)"
  using assms
  by (auto simp: predict_def step_def state_after_def update_word_suggestions_frame
      split: sum.splits)

end
